theory Spec2Isabelle
  imports Main "HOL-Library.Word"
begin

unbundle bit_operations_syntax

section \<open>Machine integers of the driver\<close>

text \<open>
  The driver fitpc2_tz.c computes in the C types \<open>u8\<close>, \<open>u32\<close>, \<open>s32\<close>/\<open>int\<close> and
  \<open>unsigned long\<close>.  The unsigned types are words.  Signed \<open>int\<close> arithmetic is
  modelled on mathematical integers with every operation checked against the 32-bit range:
  a result outside the range is signed overflow, which C leaves undefined, and is the value
  \<open>None\<close>.  \<open>unsigned long\<close> is taken 32 bits wide, as on the 32-bit x86 processor of
  the board; every value the driver stores in one is below 256, so the width is immaterial.
\<close>

type_synonym u8 = "8 word"
type_synonym u32 = "32 word"
type_synonym ulong = "32 word"

definition s32_ok :: "int \<Rightarrow> bool" where
  "s32_ok x = (- 2147483648 \<le> x \<and> x \<le> 2147483647)"

definition s32_mul :: "int \<Rightarrow> int \<Rightarrow> int option" where
  "s32_mul a b = (if s32_ok (a * b) then Some (a * b) else None)"

definition s32_add :: "int \<Rightarrow> int \<Rightarrow> int option" where
  "s32_add a b = (if s32_ok (a + b) then Some (a + b) else None)"

definition s32_sub :: "int \<Rightarrow> int \<Rightarrow> int option" where
  "s32_sub a b = (if s32_ok (a - b) then Some (a - b) else None)"

text \<open>C division truncates towards zero; dividing by zero and \<open>INT_MIN / -1\<close> are undefined.\<close>

definition s32_div :: "int \<Rightarrow> int \<Rightarrow> int option" where
  "s32_div a b =
     (let q = sgn a * sgn b * (\<bar>a\<bar> div \<bar>b\<bar>)
      in if b = 0 \<or> \<not> s32_ok q then None else Some q)"

section \<open>Constants\<close>

definition REG_DELAY :: nat where "REG_DELAY = 100"
definition PCI_PORT5_MCR :: nat where "PCI_PORT5_MCR = 0xD0"
definition PCI_PORT5_MDR :: nat where "PCI_PORT5_MDR = 0xD4"
definition TEMP1_MASK :: u32 where "TEMP1_MASK = 0x000000FF"
definition TEMP1_SHIFT :: nat where "TEMP1_SHIFT = 0"
definition TEMP2_MASK :: u32 where "TEMP2_MASK = 0x0000FF00"
definition TEMP2_SHIFT :: nat where "TEMP2_SHIFT = 8"
definition B0_INIT :: u32 where "B0_INIT = 0xFFFFFFFF"
definition B0_EXIT :: u32 where "B0_EXIT = 0x00000000"
definition TEMP_CRIT :: int where "TEMP_CRIT = 119"
definition TEMP_TRIP :: int where "TEMP_TRIP = 119"

text \<open>The errno values of the kernel headers the driver returns negated.\<close>

definition ENOMEM :: int where "ENOMEM = 12"
definition EBUSY :: int where "EBUSY = 16"
definition ENODEV :: int where "ENODEV = 19"

section \<open>The conversion polynomial\<close>

text \<open>
  \<open>temp_convert\<close>: the \<open>u8\<close> argument is promoted to \<open>int\<close>; \<open>1680 * temp * temp\<close>
  associates to the left; every product, quotient, difference and sum is a checked
  operation, in the order the C expression evaluates them.
\<close>

definition temp_convert :: "u8 \<Rightarrow> int option" where
  "temp_convert temp =
     (case s32_mul 1680 (uint temp) of None \<Rightarrow> None | Some p1 \<Rightarrow>
      case s32_mul p1 (uint temp) of None \<Rightarrow> None | Some p2 \<Rightarrow>
      case s32_div p2 1000000 of None \<Rightarrow> None | Some c1 \<Rightarrow>
      case s32_mul 82652 (uint temp) of None \<Rightarrow> None | Some p3 \<Rightarrow>
      case s32_div p3 100000 of None \<Rightarrow> None | Some c2 \<Rightarrow>
      case s32_sub c1 c2 of None \<Rightarrow> None | Some d \<Rightarrow>
      s32_add d 127)"

text \<open>The exact polynomial on unbounded integers, with flooring division.\<close>

definition convert_exact :: "int \<Rightarrow> int" where
  "convert_exact raw = (1680 * raw * raw) div 1000000 - (82652 * raw) div 100000 + 127"

section \<open>The bus and the driver's state\<close>

text \<open>
  What the driver does to the outside is recorded as a list of events, oldest first:
  taking and releasing \<open>read_mutex\<close>, configuration-space writes and reads with their
  offset and value, and sleeps with their duration in milliseconds.
\<close>

datatype event =
    MutexLock
  | MutexUnlock
  | CfgWrite nat u32
  | CfgRead nat u32
  | Msleep nat

text \<open>
  The registers are undocumented, so the device is a black box: what a configuration read
  returns is a function of everything done on the bus before it and of the offset read.
\<close>

type_synonym pci_dev = "event list \<Rightarrow> nat \<Rightarrow> u32"

text \<open>A registered thermal zone is an opaque handle of the framework; \<open>None\<close> is \<open>NULL\<close>.\<close>

type_synonym thermal_zone_device = nat

record fitpc2_tz =
  tz_id :: int
  dev :: "thermal_zone_device option"

text \<open>
  The globals \<open>pdev\<close>, \<open>read_mutex\<close>, \<open>tz[0]\<close> and \<open>tz[1]\<close> (\<open>None\<close> is a \<open>NULL\<close>
  pointer), together with the kernel resources the driver holds: the bus log, the number of
  \<open>kzalloc\<close> blocks not yet freed, the zones registered with the framework, and the
  references taken on the PCI device.
\<close>

record driver =
  pdev :: "pci_dev option"
  mutex_live :: bool
  tz0 :: "fitpc2_tz option"
  tz1 :: "fitpc2_tz option"
  buslog :: "event list"
  kallocs :: nat
  zones :: "thermal_zone_device list"
  pci_refs :: nat

definition mutex_lock :: "driver \<Rightarrow> driver" where
  "mutex_lock s = s\<lparr>buslog := buslog s @ [MutexLock]\<rparr>"

definition mutex_unlock :: "driver \<Rightarrow> driver" where
  "mutex_unlock s = s\<lparr>buslog := buslog s @ [MutexUnlock]\<rparr>"

definition msleep :: "nat \<Rightarrow> driver \<Rightarrow> driver" where
  "msleep ms s = s\<lparr>buslog := buslog s @ [Msleep ms]\<rparr>"

definition pci_write_config_dword :: "pci_dev \<Rightarrow> nat \<Rightarrow> u32 \<Rightarrow> driver \<Rightarrow> driver" where
  "pci_write_config_dword d whr val s = s\<lparr>buslog := buslog s @ [CfgWrite whr val]\<rparr>"

definition pci_read_config_dword :: "pci_dev \<Rightarrow> nat \<Rightarrow> driver \<Rightarrow> u32 \<times> driver" where
  "pci_read_config_dword d whr s =
     (let v = d (buslog s) whr in (v, s\<lparr>buslog := buslog s @ [CfgRead whr v]\<rparr>))"

section \<open>Reading a temperature\<close>

text \<open>
  A callback returns its \<open>int\<close> result together with the store it made through its output
  pointer, if it made one.  \<open>Undefined\<close> is behaviour C leaves undefined: here a \<open>NULL\<close>
  descriptor dereferenced, or signed overflow in the conversion.
\<close>

datatype outcome = Undefined | Returned int "ulong option"

text \<open>What a store through the output pointer leaves in the caller's variable.\<close>

definition stored :: "'a option \<Rightarrow> 'a \<Rightarrow> 'a" where
  "stored st old = (case st of None \<Rightarrow> old | Some v \<Rightarrow> v)"

fun store_of :: "outcome \<Rightarrow> ulong option" where
  "store_of Undefined = None"
| "store_of (Returned r st) = st"

definition deliver :: "u8 \<Rightarrow> driver \<Rightarrow> outcome \<times> driver" where
  "deliver temp s =
     (case temp_convert temp of
        None \<Rightarrow> (Undefined, s)
      | Some v \<Rightarrow> (Returned 0 (Some (word_of_int v)), s))"

definition get_temp :: "thermal_zone_device option \<Rightarrow> driver \<Rightarrow> outcome \<times> driver" where
  "get_temp thermal_zone s =
     (case pdev s of
        None \<Rightarrow> (Returned (- ENODEV) None, s)
      | Some d \<Rightarrow>
          let s1 = mutex_lock s;
              s2 = pci_write_config_dword d PCI_PORT5_MDR B0_INIT s1;
              s3 = pci_write_config_dword d PCI_PORT5_MCR 0xE004B000 s2;
              s4 = msleep REG_DELAY s3;
              s5 = pci_write_config_dword d PCI_PORT5_MCR 0xD004B100 s4;
              (reg, s6) = pci_read_config_dword d PCI_PORT5_MDR s5;
              s7 = pci_write_config_dword d PCI_PORT5_MDR B0_EXIT s6;
              s8 = pci_write_config_dword d PCI_PORT5_MCR 0xE004B000 s7;
              s9 = mutex_unlock s8;
              temp1 = (ucast (drop_bit TEMP1_SHIFT (reg AND TEMP1_MASK)) :: u8);
              temp2 = (ucast (drop_bit TEMP2_SHIFT (reg AND TEMP2_MASK)) :: u8)
          in case tz0 s9 of
               None \<Rightarrow> (Undefined, s9)
             | Some t0 \<Rightarrow>
                 if thermal_zone = dev t0 then deliver temp1 s9
                 else (case tz1 s9 of
                         None \<Rightarrow> (Undefined, s9)
                       | Some t1 \<Rightarrow>
                           if thermal_zone = dev t1 then deliver temp2 s9
                           else (Returned 0 None, s9)))"

section \<open>Trip policy\<close>

datatype thermal_trip_type =
  THERMAL_TRIP_ACTIVE | THERMAL_TRIP_PASSIVE | THERMAL_TRIP_HOT | THERMAL_TRIP_CRITICAL

definition get_crit_temp :: "thermal_zone_device option \<Rightarrow> int \<times> ulong option" where
  "get_crit_temp tz = (0, Some (word_of_int TEMP_CRIT))"

definition get_trip_type ::
  "thermal_zone_device option \<Rightarrow> int \<Rightarrow> int \<times> thermal_trip_type option" where
  "get_trip_type tz trip = (0, if trip = 0 then Some THERMAL_TRIP_ACTIVE else None)"

definition get_trip_temp :: "thermal_zone_device option \<Rightarrow> int \<Rightarrow> int \<times> ulong option" where
  "get_trip_temp tz trip = (0, if trip = 0 then Some (word_of_int TEMP_TRIP) else None)"

section \<open>Module initialisation and exit\<close>

text \<open>
  What the kernel answers during \<open>fitpc2_init\<close>: the number of DMI table entries that match
  the running system, the device \<open>pci_get_device\<close> finds (if any), whether each of the two
  \<open>kzalloc\<close> calls succeeds, and the zone each \<open>thermal_zone_device_register\<close> call returns
  (\<open>None\<close> is the \<open>NULL\<close> the driver tests for).
\<close>

record platform =
  dmi_matches :: nat
  pci_found :: "pci_dev option"
  kzalloc0_ok :: bool
  kzalloc1_ok :: bool
  register0 :: "thermal_zone_device option"
  register1 :: "thermal_zone_device option"

definition pci_get_device :: "pci_dev option \<Rightarrow> driver \<Rightarrow> pci_dev option \<times> driver" where
  "pci_get_device found s =
     (case found of
        None \<Rightarrow> (None, s)
      | Some d \<Rightarrow> (Some d, s\<lparr>pci_refs := pci_refs s + 1\<rparr>))"

definition pci_dev_put :: "pci_dev option \<Rightarrow> driver \<Rightarrow> driver" where
  "pci_dev_put p s = (case p of None \<Rightarrow> s | Some d \<Rightarrow> s\<lparr>pci_refs := pci_refs s - 1\<rparr>)"

definition mutex_init :: "driver \<Rightarrow> driver" where
  "mutex_init s = s\<lparr>mutex_live := True\<rparr>"

definition mutex_destroy :: "driver \<Rightarrow> driver" where
  "mutex_destroy s = s\<lparr>mutex_live := False\<rparr>"

text \<open>\<open>kzalloc\<close> returns zeroed memory: \<open>id = 0\<close> and \<open>dev = NULL\<close>.\<close>

definition kzalloc :: "bool \<Rightarrow> driver \<Rightarrow> fitpc2_tz option \<times> driver" where
  "kzalloc ok s =
     (if ok then (Some \<lparr>tz_id = 0, dev = None\<rparr>, s\<lparr>kallocs := kallocs s + 1\<rparr>)
      else (None, s))"

definition kfree :: "fitpc2_tz option \<Rightarrow> driver \<Rightarrow> driver" where
  "kfree p s = (case p of None \<Rightarrow> s | Some t \<Rightarrow> s\<lparr>kallocs := kallocs s - 1\<rparr>)"

definition thermal_zone_device_register ::
  "thermal_zone_device option \<Rightarrow> driver \<Rightarrow> thermal_zone_device option \<times> driver" where
  "thermal_zone_device_register answer s =
     (case answer of
        None \<Rightarrow> (None, s)
      | Some z \<Rightarrow> (Some z, s\<lparr>zones := zones s @ [z]\<rparr>))"

definition thermal_zone_device_unregister :: "thermal_zone_device option \<Rightarrow> driver \<Rightarrow> driver" where
  "thermal_zone_device_unregister p s =
     (case p of None \<Rightarrow> s | Some z \<Rightarrow> s\<lparr>zones := removeAll z (zones s)\<rparr>)"

text \<open>\<open>tz[i]->dev = z\<close> on a descriptor known to be allocated.\<close>

definition set_dev :: "thermal_zone_device option \<Rightarrow> fitpc2_tz option \<Rightarrow> fitpc2_tz option" where
  "set_dev z p = (case p of None \<Rightarrow> None | Some t \<Rightarrow> Some (t\<lparr>dev := z\<rparr>))"

definition fitpc2_init :: "platform \<Rightarrow> driver \<Rightarrow> int \<times> driver" where
  "fitpc2_init env s =
     (if dmi_matches env = 0 then (- ENODEV, s)
      else
        let (p, sa) = pci_get_device (pci_found env) s;
            s1 = sa\<lparr>pdev := p\<rparr>;
            s2 = mutex_init s1;
            (a0, sb) = kzalloc (kzalloc0_ok env) s2;
            s3 = sb\<lparr>tz0 := a0\<rparr>
        in if tz0 s3 = None then (- ENOMEM, s3)
           else
             let (a1, sc) = kzalloc (kzalloc1_ok env) s3;
                 s4 = sc\<lparr>tz1 := a1\<rparr>
             in if tz1 s4 = None then (- ENOMEM, s4)
                else
                  let (z0, sd) = thermal_zone_device_register (register0 env) s4;
                      s5 = sd\<lparr>tz0 := set_dev z0 (tz0 sd)\<rparr>
                  in if z0 = None then (- EBUSY, s5)
                     else
                       let (z1, se) = thermal_zone_device_register (register1 env) s5;
                           s6 = se\<lparr>tz1 := set_dev z1 (tz1 se)\<rparr>
                       in if z1 = None then (- EBUSY, s6)
                          else (0, s6))"

text \<open>\<open>fitpc2_exit\<close> dereferences both descriptors; with one of them \<open>NULL\<close> it is undefined.\<close>

definition fitpc2_exit :: "driver \<Rightarrow> driver option" where
  "fitpc2_exit s =
     (case tz0 s of None \<Rightarrow> None | Some t0 \<Rightarrow>
      case tz1 s of None \<Rightarrow> None | Some t1 \<Rightarrow>
        let s1 = thermal_zone_device_unregister (dev t0) s;
            s2 = thermal_zone_device_unregister (dev t1) s1;
            s3 = mutex_destroy s2;
            s4 = kfree (tz0 s3) s3;
            s5 = kfree (tz1 s4) s4;
            s6 = pci_dev_put (pdev s5) s5
        in Some s6)"

text \<open>The state before the module is loaded: nothing held, all globals zero.\<close>

definition unloaded :: driver where
  "unloaded = \<lparr>pdev = None, mutex_live = False, tz0 = None, tz1 = None, buslog = [],
               kallocs = 0, zones = [], pci_refs = 0\<rparr>"

section \<open>One read transaction\<close>

text \<open>
  The events of the statements of \<open>get_temp\<close> between \<open>mutex_lock\<close> and \<open>mutex_unlock\<close>,
  in program order, with \<open>v\<close> the word the read returned; and the word the device returns to
  that read when the transaction starts in state \<open>s\<close>.
\<close>

definition read_transaction :: "u32 \<Rightarrow> event list" where
  "read_transaction v =
     [MutexLock,
      CfgWrite PCI_PORT5_MDR B0_INIT,
      CfgWrite PCI_PORT5_MCR 0xE004B000,
      Msleep REG_DELAY,
      CfgWrite PCI_PORT5_MCR 0xD004B100,
      CfgRead PCI_PORT5_MDR v,
      CfgWrite PCI_PORT5_MDR B0_EXIT,
      CfgWrite PCI_PORT5_MCR 0xE004B000,
      MutexUnlock]"

definition status_word :: "pci_dev \<Rightarrow> driver \<Rightarrow> u32" where
  "status_word d s =
     d (buslog s @
          [MutexLock,
           CfgWrite PCI_PORT5_MDR B0_INIT,
           CfgWrite PCI_PORT5_MCR 0xE004B000,
           Msleep REG_DELAY,
           CfgWrite PCI_PORT5_MCR 0xD004B100])
       PCI_PORT5_MDR"

section \<open>Concurrent callers\<close>

text \<open>
  For interleaving, the locked part of \<open>get_temp\<close> is its list of statements, each acting on
  the caller's local \<open>reg\<close> and the shared state.  A system is the shared state, the thread
  that holds \<open>read_mutex\<close> (if any), and per thread its program counter into the statement
  list and its local \<open>reg\<close>.  Counter 9 means the call has left the locked part and returns.
  The trace records every bus event together with the thread that issued it.
\<close>

type_synonym stmt = "u32 \<times> driver \<Rightarrow> u32 \<times> driver"

definition get_temp_stmts :: "pci_dev \<Rightarrow> stmt list" where
  "get_temp_stmts d =
     [\<lambda>(reg, s). (reg, mutex_lock s),
      \<lambda>(reg, s). (reg, pci_write_config_dword d PCI_PORT5_MDR B0_INIT s),
      \<lambda>(reg, s). (reg, pci_write_config_dword d PCI_PORT5_MCR 0xE004B000 s),
      \<lambda>(reg, s). (reg, msleep REG_DELAY s),
      \<lambda>(reg, s). (reg, pci_write_config_dword d PCI_PORT5_MCR 0xD004B100 s),
      \<lambda>(reg, s). pci_read_config_dword d PCI_PORT5_MDR s,
      \<lambda>(reg, s). (reg, pci_write_config_dword d PCI_PORT5_MDR B0_EXIT s),
      \<lambda>(reg, s). (reg, pci_write_config_dword d PCI_PORT5_MCR 0xE004B000 s),
      \<lambda>(reg, s). (reg, mutex_unlock s)]"

record system =
  shared :: driver
  owner :: "nat option"
  pcs :: "nat \<Rightarrow> nat"
  regs :: "nat \<Rightarrow> u32"
  trace :: "(nat \<times> event) list"

text \<open>
  One step of thread \<open>i\<close>.  A thread whose call has returned calls again.  With no device
  the call returns at once.  \<open>mutex_lock\<close> (statement 0) waits while another thread holds the
  mutex; \<open>mutex_unlock\<close> (statement 8) releases it.
\<close>

definition thread_step :: "nat \<Rightarrow> system \<Rightarrow> system" where
  "thread_step i y =
     (let k = pcs y i in
      if 9 \<le> k then y\<lparr>pcs := (pcs y)(i := 0)\<rparr>
      else
        case pdev (shared y) of
          None \<Rightarrow> if k = 0 then y\<lparr>pcs := (pcs y)(i := 9)\<rparr> else y
        | Some d \<Rightarrow>
            if k = 0 \<and> owner y \<noteq> None then y
            else
              let (r', s') = (get_temp_stmts d ! k) (regs y i, shared y)
              in y\<lparr>shared := s',
                   owner := (if k = 0 then Some i else if k = 8 then None else owner y),
                   pcs := (pcs y)(i := Suc k),
                   regs := (regs y)(i := r'),
                   trace := trace y @
                     map (Pair i) (drop (length (buslog (shared y))) (buslog s'))\<rparr>)"

fun run :: "nat list \<Rightarrow> system \<Rightarrow> system" where
  "run [] y = y"
| "run (i # sched) y = run sched (thread_step i y)"

definition idle_system :: "driver \<Rightarrow> (nat \<Rightarrow> u32) \<Rightarrow> system" where
  "idle_system s rs = \<lparr>shared = s, owner = None, pcs = (\<lambda>i. 0), regs = rs, trace = []\<rparr>"

text \<open>
  An observer of the bus: it is idle between transactions, or busy with thread \<open>j\<close>'s
  transaction of which \<open>k\<close> events have been seen; any event of another thread, or out of
  order, while busy is an overlap.
\<close>

datatype progress = Idle | Busy nat nat | Overlap

definition expected :: "nat \<Rightarrow> event \<Rightarrow> bool" where
  "expected k e =
     (k < 9 \<and>
      (case e of
         CfgRead whr v \<Rightarrow> k = 5 \<and> whr = PCI_PORT5_MDR
       | _ \<Rightarrow> k \<noteq> 5 \<and> e = read_transaction 0 ! k))"

fun observe :: "progress \<Rightarrow> nat \<times> event \<Rightarrow> progress" where
  "observe Idle (i, e) = (if expected 0 e then Busy i 1 else Overlap)"
| "observe (Busy j k) (i, e) =
     (if i = j \<and> expected k e then (if k = 8 then Idle else Busy j (Suc k)) else Overlap)"
| "observe Overlap x = Overlap"

definition serialized :: "(nat \<times> event) list \<Rightarrow> bool" where
  "serialized tr = (foldl observe Idle tr \<noteq> Overlap)"

text \<open>The state of the observer that corresponds to a system, and the mutex discipline.\<close>

definition seen :: "system \<Rightarrow> progress" where
  "seen y = (case owner y of None \<Rightarrow> Idle | Some j \<Rightarrow> Busy j (pcs y j))"

definition outside :: "system \<Rightarrow> nat \<Rightarrow> bool" where
  "outside y i = (pcs y i = 0 \<or> 9 \<le> pcs y i)"

definition mutex_inv :: "system \<Rightarrow> bool" where
  "mutex_inv y =
     (foldl observe Idle (trace y) = seen y \<and>
      (case owner y of
         None \<Rightarrow> \<forall>i. outside y i
       | Some j \<Rightarrow> 1 \<le> pcs y j \<and> pcs y j \<le> 8 \<and> (\<forall>i. i \<noteq> j \<longrightarrow> outside y i)))"

section \<open>Concrete machines\<close>

text \<open>
  A loaded driver on a board whose device answers every configuration read with
  \<open>0x00001E0A\<close>, with both descriptors allocated and the zones 1 and 2 registered; the same
  driver without a device; and three boots: one where the second allocation fails, one where
  the second registration is refused, one where no PCI device is found.
\<close>

definition board :: driver where
  "board = \<lparr>pdev = Some (\<lambda>h whr. 0x00001E0A), mutex_live = True,
            tz0 = Some \<lparr>tz_id = 0, dev = Some 1\<rparr>, tz1 = Some \<lparr>tz_id = 0, dev = Some 2\<rparr>,
            buslog = [], kallocs = 2, zones = [1, 2], pci_refs = 1\<rparr>"

definition board_no_pdev :: driver where
  "board_no_pdev = \<lparr>pdev = None, mutex_live = True,
            tz0 = Some \<lparr>tz_id = 0, dev = Some 1\<rparr>, tz1 = Some \<lparr>tz_id = 0, dev = Some 2\<rparr>,
            buslog = [], kallocs = 2, zones = [1, 2], pci_refs = 0\<rparr>"

definition alloc_fails :: platform where
  "alloc_fails = \<lparr>dmi_matches = 1, pci_found = Some (\<lambda>h whr. 0), kzalloc0_ok = True,
                  kzalloc1_ok = False, register0 = Some 1, register1 = Some 2\<rparr>"

definition register_fails :: platform where
  "register_fails = \<lparr>dmi_matches = 1, pci_found = Some (\<lambda>h whr. 0), kzalloc0_ok = True,
                     kzalloc1_ok = True, register0 = Some 1, register1 = None\<rparr>"

definition no_device :: platform where
  "no_device = \<lparr>dmi_matches = 1, pci_found = None, kzalloc0_ok = True,
                kzalloc1_ok = True, register0 = Some 1, register1 = Some 2\<rparr>"

definition no_dmi :: platform where
  "no_dmi = \<lparr>dmi_matches = 0, pci_found = None, kzalloc0_ok = True,
             kzalloc1_ok = True, register0 = Some 1, register1 = Some 2\<rparr>"

section \<open>Range of the intermediate values\<close>

lemma uint_u8_range: "0 \<le> uint (t :: u8) \<and> uint t \<le> 255"
proof -
  have "uint t < 2 ^ LENGTH(8)" by (rule uint_bounded)
  then show ?thesis by simp
qed

lemma square_u8_le:
  assumes "0 \<le> (r :: int)" and "r \<le> 255"
  shows "0 \<le> r * r \<and> r * r \<le> 65025"
proof -
  have "r * r \<le> 255 * 255" using assms by (intro mult_mono) simp_all
  moreover have "0 \<le> r * r" using assms by simp
  ultimately show ?thesis by simp
qed

lemma s32_div_nonneg:
  assumes "0 \<le> a" and "a \<le> 2147483647" and "0 < b"
  shows "s32_div a b = Some (a div b)"
proof -
  have q: "sgn a * sgn b * (\<bar>a\<bar> div \<bar>b\<bar>) = a div b"
  proof (cases "a = 0")
    case True
    then show ?thesis by simp
  next
    case False
    with assms have "sgn a = 1" and "sgn b = 1" by simp_all
    with assms show ?thesis by simp
  qed
  have "0 \<le> a div b" using assms by (simp add: pos_imp_zdiv_nonneg_iff)
  moreover have "a div b \<le> a div 1" using assms by (intro zdiv_mono2) simp_all
  ultimately have "s32_ok (a div b)" using assms by (simp add: s32_ok_def)
  moreover have "b \<noteq> 0" using assms by simp
  ultimately show ?thesis unfolding s32_div_def Let_def q by simp
qed

lemma temp_convert_steps:
  fixes temp :: u8
  defines "r \<equiv> uint temp"
  shows "s32_mul 1680 r = Some (1680 * r)"
    and "s32_mul (1680 * r) r = Some (1680 * r * r)"
    and "s32_div (1680 * r * r) 1000000 = Some ((1680 * r * r) div 1000000)"
    and "s32_mul 82652 r = Some (82652 * r)"
    and "s32_div (82652 * r) 100000 = Some ((82652 * r) div 100000)"
    and "0 \<le> (1680 * r * r) div 1000000 \<and> (1680 * r * r) div 1000000 \<le> 109"
    and "0 \<le> (82652 * r) div 100000 \<and> (82652 * r) div 100000 \<le> 210"
proof -
  have r: "0 \<le> r" "r \<le> 255" using uint_u8_range [of temp] by (simp_all add: r_def)
  have sq: "0 \<le> r * r" "r * r \<le> 65025" using square_u8_le [OF r] by simp_all
  show "s32_mul 1680 r = Some (1680 * r)"
    using r by (simp add: s32_mul_def s32_ok_def)
  have "1680 * r * r = 1680 * (r * r)" by simp
  with sq have p2: "0 \<le> 1680 * r * r" "1680 * r * r \<le> 109242000"
    by linarith+
  have "s32_ok (1680 * r * r)" unfolding s32_ok_def using p2 by linarith
  then show "s32_mul (1680 * r) r = Some (1680 * r * r)"
    unfolding s32_mul_def by (simp only: if_True)
  show "s32_div (1680 * r * r) 1000000 = Some ((1680 * r * r) div 1000000)"
    using p2 by (intro s32_div_nonneg) simp_all
  show "s32_mul 82652 r = Some (82652 * r)"
    using r by (simp add: s32_mul_def s32_ok_def)
  show "s32_div (82652 * r) 100000 = Some ((82652 * r) div 100000)"
    using r by (intro s32_div_nonneg) simp_all
  show "0 \<le> (1680 * r * r) div 1000000 \<and> (1680 * r * r) div 1000000 \<le> 109"
    using p2 by (simp add: pos_imp_zdiv_nonneg_iff zdiv_mono1 [of _ 109242000 1000000, simplified])
  show "0 \<le> (82652 * r) div 100000 \<and> (82652 * r) div 100000 \<le> 210"
    using r by (simp add: pos_imp_zdiv_nonneg_iff zdiv_mono1 [of _ 21076260 100000, simplified])
qed

lemma temp_convert_exact: "temp_convert temp = Some (convert_exact (uint temp))"
proof -
  let ?r = "uint temp"
  let ?c1 = "(1680 * ?r * ?r) div 1000000"
  let ?c2 = "(82652 * ?r) div 100000"
  note st = temp_convert_steps [of temp]
  have d: "s32_sub ?c1 ?c2 = Some (?c1 - ?c2)"
    using st(6,7) by (simp add: s32_sub_def s32_ok_def)
  have a: "s32_add (?c1 - ?c2) 127 = Some (?c1 - ?c2 + 127)"
    using st(6,7) by (simp add: s32_add_def s32_ok_def)
  show ?thesis
    unfolding temp_convert_def convert_exact_def
    by (simp only: st(1-5) d a option.case)
qed

section \<open>Extracting the two bytes\<close>

lemma low_byte:
  "(ucast (drop_bit TEMP1_SHIFT ((w::u32) AND TEMP1_MASK)) :: u8) = ucast w"
proof -
  have h: "(0xFF :: u32) = mask 8" by (simp add: mask_eq_exp_minus_1)
  show ?thesis
    unfolding TEMP1_SHIFT_def TEMP1_MASK_def h
    by (rule bit_word_eqI) (auto simp add: bit_simps)
qed

lemma next_byte:
  "(ucast (drop_bit TEMP2_SHIFT ((w::u32) AND TEMP2_MASK)) :: u8) = ucast (drop_bit 8 w)"
proof -
  have h: "(0xFF00 :: u32) = push_bit 8 (mask 8)"
    by (simp add: mask_eq_exp_minus_1 push_bit_eq_mult)
  show ?thesis
    unfolding TEMP2_SHIFT_def TEMP2_MASK_def h
    by (rule bit_word_eqI) (auto simp add: bit_simps)
qed

lemma uint_low_byte: "uint (ucast (w::u32) :: u8) = uint w mod 256"
  by (simp add: unsigned_ucast_eq take_bit_eq_mod)

lemma uint_next_byte: "uint (ucast (drop_bit 8 (w::u32)) :: u8) = uint w div 256 mod 256"
  by (simp add: unsigned_ucast_eq take_bit_eq_mod drop_bit_eq_div uint_div_distrib)

section \<open>The read callback, unfolded\<close>

lemma get_temp_absent: "pdev s = None \<Longrightarrow> get_temp z s = (Returned (- ENODEV) None, s)"
  by (simp add: get_temp_def)

lemma get_temp_present:
  assumes "pdev s = Some d"
  shows "get_temp z s =
     (let s9 = s\<lparr>buslog := buslog s @ read_transaction (status_word d s)\<rparr>
      in case tz0 s of
           None \<Rightarrow> (Undefined, s9)
         | Some t0 \<Rightarrow>
             if z = dev t0 then deliver (ucast (status_word d s)) s9
             else (case tz1 s of
                     None \<Rightarrow> (Undefined, s9)
                   | Some t1 \<Rightarrow>
                       if z = dev t1 then deliver (ucast (drop_bit 8 (status_word d s))) s9
                       else (Returned 0 None, s9)))"
  using assms unfolding get_temp_def low_byte next_byte
  by (cases "tz0 s"; cases "tz1 s";
      simp add: Let_def mutex_lock_def mutex_unlock_def msleep_def
        pci_write_config_dword_def pci_read_config_dword_def
        read_transaction_def status_word_def)

lemma deliver_total:
  "deliver b s = (Returned 0 (Some (word_of_int (convert_exact (uint b)))), s)"
  by (simp add: deliver_def temp_convert_exact)

lemma get_temp_buslog:
  assumes "pdev s = Some d"
  shows "buslog (snd (get_temp z s)) = buslog s @ read_transaction (status_word d s)"
  unfolding get_temp_present [OF assms]
  by (simp add: Let_def deliver_total split: option.splits)

lemma byte_of_1E0A: "(7690 :: u8) = 10"
  by simp

lemma temp_convert_10: "temp_convert 10 = Some 119"
  by (simp add: temp_convert_def s32_mul_def s32_div_def s32_sub_def s32_add_def s32_ok_def)

lemma temp_convert_30: "temp_convert 30 = Some 104"
  by (simp add: temp_convert_def s32_mul_def s32_div_def s32_sub_def s32_add_def s32_ok_def)

lemma board_fields:
  "pdev board = Some (\<lambda>h whr. 0x00001E0A)"
  "tz0 board = Some \<lparr>tz_id = 0, dev = Some 1\<rparr>"
  "tz1 board = Some \<lparr>tz_id = 0, dev = Some 2\<rparr>"
  "buslog board = []"
  by (simp_all add: board_def)

lemma board_status_word: "status_word (\<lambda>h whr. 0x00001E0A) board = 0x00001E0A"
  by (simp add: status_word_def)

section \<open>The claims\<close>

text \<open>
  C1.  For every raw byte, \<open>temp_convert\<close> returns
  \<open>floor (1680 * raw\<^sup>2 / 1000000) - floor (82652 * raw / 100000) + 127\<close> computed on exact
  integers (no operation leaves the 32-bit range, and on the non-negative operands the
  truncating division of C is the flooring one); in particular the byte 0 converts to 127.
\<close>

theorem temp_convert_formula:
  "temp_convert raw =
     Some ((1680 * (uint raw)\<^sup>2) div 1000000 - (82652 * uint raw) div 100000 + 127)
   \<and> temp_convert 0 = Some 127"
proof -
  have "1680 * uint raw * uint raw = 1680 * (uint raw)\<^sup>2"
    by (simp add: power2_eq_square)
  then have "temp_convert raw =
     Some ((1680 * (uint raw)\<^sup>2) div 1000000 - (82652 * uint raw) div 100000 + 127)"
    using temp_convert_exact [of raw] by (simp add: convert_exact_def)
  moreover have "temp_convert 0 = Some 127"
    using temp_convert_exact [of 0] by (simp add: convert_exact_def)
  ultimately show ?thesis by simp
qed

text \<open>
  C6.  In \<open>temp_convert\<close> every product stays inside the signed 32-bit range for every raw
  byte: the three checked multiplications succeed with the exact product, the largest of
  them, \<open>1680 * raw * raw\<close>, is at most \<open>1680 * 255 * 255\<close>, which is below \<open>2\<^sup>3\<^sup>1\<close>, and the
  conversion as a whole never overflows.
\<close>

theorem temp_convert_no_overflow:
  "s32_mul 1680 (uint raw) = Some (1680 * uint raw)
   \<and> s32_mul (1680 * uint raw) (uint raw) = Some (1680 * uint raw * uint raw)
   \<and> s32_mul 82652 (uint raw) = Some (82652 * uint raw)
   \<and> 1680 * uint raw * uint raw \<le> 1680 * 255 * 255
   \<and> (1680 * 255 * 255 :: int) < 2 ^ 31
   \<and> temp_convert raw \<noteq> None"
proof -
  note st = temp_convert_steps [of raw]
  have r: "0 \<le> uint raw" "uint raw \<le> 255" using uint_u8_range [of raw] by simp_all
  have "1680 * uint raw * uint raw = 1680 * (uint raw * uint raw)" by simp
  then have "1680 * uint raw * uint raw \<le> 1680 * 255 * 255"
    using square_u8_le [OF r] by linarith
  moreover have "temp_convert raw \<noteq> None" by (simp add: temp_convert_exact)
  ultimately show ?thesis using st(1,2,4) by simp
qed

text \<open>
  C2.  With the device present, one call of \<open>get_temp\<close> adds to the bus log exactly: the
  mutex taken, \<open>0xFFFFFFFF\<close> written to the data register, \<open>0xE004B000\<close> written to the
  command register, a sleep of 100, \<open>0xD004B100\<close> written to the command register, the
  status word read from the data register, \<open>0\<close> written to the data register,
  \<open>0xE004B000\<close> written to the command register again, the mutex released; nothing else
  and in this order.
\<close>

theorem get_temp_transaction:
  assumes "pdev s = Some d"
  shows "buslog (snd (get_temp z s)) = buslog s @
           [MutexLock,
            CfgWrite PCI_PORT5_MDR 0xFFFFFFFF,
            CfgWrite PCI_PORT5_MCR 0xE004B000,
            Msleep 100,
            CfgWrite PCI_PORT5_MCR 0xD004B100,
            CfgRead PCI_PORT5_MDR (status_word d s),
            CfgWrite PCI_PORT5_MDR 0x00000000,
            CfgWrite PCI_PORT5_MCR 0xE004B000,
            MutexUnlock]"
  using get_temp_buslog [OF assms, of z]
  by (simp add: read_transaction_def B0_INIT_def B0_EXIT_def REG_DELAY_def)

theorem get_temp_transaction_witness:
  "pdev board = Some (\<lambda>h whr. 0x00001E0A) \<and>
   buslog (snd (get_temp (Some 1) board)) =
           [MutexLock,
            CfgWrite 0xD4 0xFFFFFFFF,
            CfgWrite 0xD0 0xE004B000,
            Msleep 100,
            CfgWrite 0xD0 0xD004B100,
            CfgRead 0xD4 0x1E0A,
            CfgWrite 0xD4 0x00000000,
            CfgWrite 0xD0 0xE004B000,
            MutexUnlock]"
  using get_temp_transaction [OF board_fields(1), of "Some 1"] board_fields(1,4)
    board_status_word
  by (simp add: PCI_PORT5_MDR_def PCI_PORT5_MCR_def)

text \<open>
  C3 (as amended).  With the device present, both descriptors allocated and the two zones
  distinct, the read for sensor 0 returns \<open>temp_convert\<close> of bits [7:0] of the status word
  and the read for sensor 1 returns \<open>temp_convert\<close> of bits [15:8]; the bits above are
  ignored and neither sensor sees the other's byte.  For the status word \<open>0x00001E0A\<close>
  that is \<open>temp_convert 10\<close> for sensor 0 and \<open>temp_convert 30\<close> for sensor 1.
\<close>

theorem get_temp_bytes:
  assumes "pdev s = Some d" and "tz0 s = Some t0" and "tz1 s = Some t1"
    and "dev t0 \<noteq> dev t1"
  shows "fst (get_temp (dev t0) s) =
           Returned 0 (map_option word_of_int (temp_convert (ucast (status_word d s))))
       \<and> fst (get_temp (dev t1) s) =
           Returned 0 (map_option word_of_int
             (temp_convert (ucast (drop_bit 8 (status_word d s)))))
       \<and> uint (ucast (status_word d s) :: u8) = uint (status_word d s) mod 256
       \<and> uint (ucast (drop_bit 8 (status_word d s)) :: u8) =
           uint (status_word d s) div 256 mod 256
       \<and> temp_convert (ucast (status_word d s)) \<noteq> None
       \<and> temp_convert (ucast (drop_bit 8 (status_word d s))) \<noteq> None
       \<and> (status_word d s = 0x00001E0A \<longrightarrow>
           fst (get_temp (dev t0) s) = Returned 0 (map_option word_of_int (temp_convert 10)) \<and>
           fst (get_temp (dev t1) s) = Returned 0 (map_option word_of_int (temp_convert 30)))"
proof -
  let ?w = "status_word d s"
  have g0: "fst (get_temp (dev t0) s) =
           Returned 0 (map_option word_of_int (temp_convert (ucast ?w)))"
    unfolding get_temp_present [OF assms(1)] using assms(2)
    by (simp add: Let_def deliver_total temp_convert_exact)
  have g1: "fst (get_temp (dev t1) s) =
           Returned 0 (map_option word_of_int (temp_convert (ucast (drop_bit 8 ?w))))"
    unfolding get_temp_present [OF assms(1)] using assms(2,3,4)
    by (simp add: Let_def deliver_total temp_convert_exact)
  have b0: "uint (ucast ?w :: u8) = uint ?w mod 256" by (rule uint_low_byte)
  have b1: "uint (ucast (drop_bit 8 ?w) :: u8) = uint ?w div 256 mod 256"
    by (rule uint_next_byte)
  have n0: "temp_convert (ucast ?w) \<noteq> None" by (simp add: temp_convert_exact)
  have n1: "temp_convert (ucast (drop_bit 8 ?w)) \<noteq> None" by (simp add: temp_convert_exact)
  have ex: "fst (get_temp (dev t0) s) = Returned 0 (map_option word_of_int (temp_convert 10)) \<and>
        fst (get_temp (dev t1) s) = Returned 0 (map_option word_of_int (temp_convert 30))"
    if "?w = 0x00001E0A"
  proof -
    have "(ucast (0x00001E0A :: u32) :: u8) = 10" by simp
    moreover have "(ucast (drop_bit 8 (0x00001E0A :: u32)) :: u8) = 30" by simp
    ultimately show ?thesis unfolding g0 g1 that by (simp only:)
  qed
  from g0 g1 b0 b1 n0 n1 ex show ?thesis by blast
qed

theorem get_temp_bytes_witness:
  "pdev board = Some (\<lambda>h whr. 0x00001E0A) \<and> tz0 board = Some \<lparr>tz_id = 0, dev = Some 1\<rparr>
   \<and> tz1 board = Some \<lparr>tz_id = 0, dev = Some 2\<rparr> \<and> Some (1::nat) \<noteq> Some 2
   \<and> status_word (\<lambda>h whr. 0x00001E0A) board = 0x00001E0A
   \<and> fst (get_temp (Some 1) board) = Returned 0 (Some 119)
   \<and> fst (get_temp (Some 2) board) = Returned 0 (Some 104)"
proof -
  have ne: "dev \<lparr>tz_id = 0, dev = Some (1::nat)\<rparr> \<noteq> dev \<lparr>tz_id = 0, dev = Some 2\<rparr>"
    by simp
  note t = get_temp_bytes [OF board_fields(1,2,3) ne]
  from t have "status_word (\<lambda>h whr. 0x00001E0A) board = 0x00001E0A \<longrightarrow>
      fst (get_temp (dev \<lparr>tz_id = 0, dev = Some 1\<rparr>) board) =
        Returned 0 (map_option word_of_int (temp_convert 10)) \<and>
      fst (get_temp (dev \<lparr>tz_id = 0, dev = Some 2\<rparr>) board) =
        Returned 0 (map_option word_of_int (temp_convert 30))"
    by blast
  with board_status_word
  have "fst (get_temp (Some 1) board) = Returned 0 (map_option word_of_int (temp_convert 10))"
    and "fst (get_temp (Some 2) board) = Returned 0 (map_option word_of_int (temp_convert 30))"
    by simp_all
  then show ?thesis
    using board_fields(1,2,3) board_status_word temp_convert_10 temp_convert_30 by simp
qed

text \<open>
  The example of C3 as the claim words it fails: on the status word \<open>0x00001E0A\<close> sensor 0
  does not get \<open>temp_convert 30\<close> and sensor 1 does not get \<open>temp_convert 10\<close>.
\<close>

theorem get_temp_bytes_counterexample:
  "\<not> (fst (get_temp (Some 1) board) = Returned 0 (map_option word_of_int (temp_convert 30)) \<or>
      fst (get_temp (Some 2) board) = Returned 0 (map_option word_of_int (temp_convert 10)))"
proof -
  have g0: "fst (get_temp (Some 1) board) = Returned 0 (Some 119)"
    unfolding get_temp_present [OF board_fields(1)]
    by (simp add: board_fields board_status_word deliver_def byte_of_1E0A temp_convert_10)
  have g1: "fst (get_temp (Some 2) board) = Returned 0 (Some 104)"
    unfolding get_temp_present [OF board_fields(1)]
    by (simp add: board_fields board_status_word deliver_def temp_convert_30)
  show ?thesis unfolding g0 g1 temp_convert_10 temp_convert_30 by simp
qed

text \<open>
  C4.  The trip callbacks give fixed answers and always return 0: \<open>get_crit_temp\<close> stores
  119; \<open>get_trip_temp\<close> stores 119 for trip 0 and stores nothing for any other trip;
  \<open>get_trip_type\<close> stores \<open>THERMAL_TRIP_ACTIVE\<close> for trip 0 and stores nothing for any
  other trip.
\<close>

theorem trip_policy:
  "get_crit_temp z = (0, Some 119)
   \<and> get_trip_temp z 0 = (0, Some 119)
   \<and> (\<forall>n. n \<noteq> 0 \<longrightarrow> get_trip_temp z n = (0, None))
   \<and> get_trip_type z 0 = (0, Some THERMAL_TRIP_ACTIVE)
   \<and> (\<forall>n. n \<noteq> 0 \<longrightarrow> get_trip_type z n = (0, None))"
  by (simp add: get_crit_temp_def get_trip_temp_def get_trip_type_def TEMP_CRIT_def
      TEMP_TRIP_def)

theorem trip_policy_witness:
  "(1::int) \<noteq> 0 \<and> (- 1::int) \<noteq> 0
   \<and> get_trip_temp (Some 1) 1 = (0, None) \<and> get_trip_type (Some 1) 1 = (0, None)
   \<and> get_trip_temp (Some 1) (- 1) = (0, None) \<and> get_trip_type (Some 1) (- 1) = (0, None)
   \<and> get_trip_temp (Some 1) 0 = (0, Some 119)
   \<and> get_trip_type (Some 1) 0 = (0, Some THERMAL_TRIP_ACTIVE)
   \<and> get_crit_temp (Some 1) = (0, Some 119)"
proof -
  note t = trip_policy [of "Some 1"]
  from t have a: "\<forall>n. n \<noteq> 0 \<longrightarrow> get_trip_temp (Some 1) n = (0, None)" by blast
  from t have b: "\<forall>n. n \<noteq> 0 \<longrightarrow> get_trip_type (Some 1) n = (0, None)" by blast
  have "get_trip_temp (Some 1) 1 = (0, None)" using a by simp
  moreover have "get_trip_temp (Some 1) (- 1) = (0, None)" using a by simp
  moreover have "get_trip_type (Some 1) 1 = (0, None)" using b by simp
  moreover have "get_trip_type (Some 1) (- 1) = (0, None)" using b by simp
  ultimately show ?thesis using t by simp
qed

text \<open>
  C5.  \<open>get_temp\<close> returns \<open>-ENODEV\<close> exactly when \<open>pdev\<close> is \<open>NULL\<close>; in that case it
  stores nothing and leaves the whole state, the bus log included, as it was (no register is
  touched).  With \<open>pdev\<close> present no call returns an error code, and with both descriptors
  allocated, as they are whenever a zone is registered, the call returns 0.
\<close>

theorem get_temp_enodev:
  "((\<exists>st. fst (get_temp z s) = Returned (- ENODEV) st) \<longleftrightarrow> pdev s = None)
   \<and> (pdev s = None \<longrightarrow>
        get_temp z s = (Returned (- ENODEV) None, s) \<and>
        buslog (snd (get_temp z s)) = buslog s)
   \<and> (pdev s \<noteq> None \<longrightarrow> (\<forall>r st. fst (get_temp z s) = Returned r st \<longrightarrow> r = 0))
   \<and> (pdev s \<noteq> None \<and> tz0 s \<noteq> None \<and> tz1 s \<noteq> None \<longrightarrow>
        (\<exists>st. fst (get_temp z s) = Returned 0 st))"
proof (cases "pdev s")
  case None
  then show ?thesis by (simp add: get_temp_absent)
next
  case (Some d)
  have err: "r = 0" if "fst (get_temp z s) = Returned r st" for r st
    using that unfolding get_temp_present [OF Some]
    by (simp add: Let_def deliver_total split: option.splits if_splits)
  have ok: "\<exists>st. fst (get_temp z s) = Returned 0 st" if "tz0 s \<noteq> None" and "tz1 s \<noteq> None"
    using that unfolding get_temp_present [OF Some]
    by (auto simp add: Let_def deliver_total)
  have no: "\<not> (\<exists>st. fst (get_temp z s) = Returned (- ENODEV) st)"
  proof
    assume "\<exists>st. fst (get_temp z s) = Returned (- ENODEV) st"
    then obtain st where "fst (get_temp z s) = Returned (- ENODEV) st" ..
    then have "- ENODEV = 0" by (rule err)
    then show False by (simp add: ENODEV_def)
  qed
  have p: "pdev s \<noteq> None" using Some by simp
  have c1: "(\<exists>st. fst (get_temp z s) = Returned (- ENODEV) st) \<longleftrightarrow> pdev s = None"
    using no p by simp
  have c2: "pdev s = None \<longrightarrow>
        get_temp z s = (Returned (- ENODEV) None, s) \<and>
        buslog (snd (get_temp z s)) = buslog s"
    using p by blast
  have c3: "pdev s \<noteq> None \<longrightarrow> (\<forall>r st. fst (get_temp z s) = Returned r st \<longrightarrow> r = 0)"
    using err by blast
  have c4: "pdev s \<noteq> None \<and> tz0 s \<noteq> None \<and> tz1 s \<noteq> None \<longrightarrow>
        (\<exists>st. fst (get_temp z s) = Returned 0 st)"
    using ok by blast
  from c1 c2 c3 c4 show ?thesis by (intro conjI)
qed

theorem get_temp_enodev_witness:
  "pdev board_no_pdev = None
   \<and> get_temp (Some 1) board_no_pdev = (Returned (- 19) None, board_no_pdev)
   \<and> buslog (snd (get_temp (Some 1) board_no_pdev)) = []
   \<and> pdev board \<noteq> None \<and> tz0 board \<noteq> None \<and> tz1 board \<noteq> None
   \<and> (\<exists>st. fst (get_temp (Some 1) board) = Returned 0 st)
   \<and> \<not> (\<exists>st. fst (get_temp (Some 1) board) = Returned (- ENODEV) st)"
proof -
  have n: "pdev board_no_pdev = None" "buslog board_no_pdev = []"
    by (simp_all add: board_no_pdev_def)
  have p: "pdev board \<noteq> None" "tz0 board \<noteq> None" "tz1 board \<noteq> None"
    by (simp_all add: board_fields)
  note a = get_temp_enodev [of "Some 1" board_no_pdev]
  note b = get_temp_enodev [of "Some 1" board]
  from a n have "get_temp (Some 1) board_no_pdev = (Returned (- 19) None, board_no_pdev)"
    by (simp add: ENODEV_def)
  moreover from b p have "\<exists>st. fst (get_temp (Some 1) board) = Returned 0 st" by blast
  moreover from b p have "\<not> (\<exists>st. fst (get_temp (Some 1) board) = Returned (- ENODEV) st)"
    by blast
  ultimately show ?thesis using n p by simp
qed

text \<open>
  C10.  With the device present and both descriptors allocated, a read for a zone that is
  neither \<open>tz[0]->dev\<close> nor \<open>tz[1]->dev\<close> still runs the whole transaction on the bus,
  returns 0, and makes no store: the caller's variable keeps the value it had.
\<close>

theorem get_temp_unknown_zone:
  assumes "pdev s = Some d" and "tz0 s = Some t0" and "tz1 s = Some t1"
    and "z \<noteq> dev t0" and "z \<noteq> dev t1"
  shows "fst (get_temp z s) = Returned 0 None
       \<and> buslog (snd (get_temp z s)) = buslog s @ read_transaction (status_word d s)
       \<and> stored (store_of (fst (get_temp z s))) old = old"
  unfolding get_temp_present [OF assms(1)] using assms(2-5)
  by (simp add: Let_def stored_def)

theorem get_temp_unknown_zone_witness:
  "pdev board = Some (\<lambda>h whr. 0x00001E0A) \<and> tz0 board = Some \<lparr>tz_id = 0, dev = Some 1\<rparr>
   \<and> tz1 board = Some \<lparr>tz_id = 0, dev = Some 2\<rparr>
   \<and> Some (7::nat) \<noteq> Some 1 \<and> Some (7::nat) \<noteq> Some 2
   \<and> fst (get_temp (Some 7) board) = Returned 0 None
   \<and> buslog (snd (get_temp (Some 7) board)) = read_transaction 0x00001E0A
   \<and> stored (store_of (fst (get_temp (Some 7) board))) 55 = 55"
proof -
  have a: "Some (7::nat) \<noteq> dev \<lparr>tz_id = 0, dev = Some 1\<rparr>" by simp
  have b: "Some (7::nat) \<noteq> dev \<lparr>tz_id = 0, dev = Some 2\<rparr>" by simp
  show ?thesis
    using get_temp_unknown_zone [OF board_fields(1,2,3) a b, of 55]
      board_fields board_status_word
    by (simp add: stored_def)
qed

section \<open>Initialisation\<close>

lemmas init_defs =
  fitpc2_init_def Let_def pci_get_device_def mutex_init_def kzalloc_def
  thermal_zone_device_register_def set_dev_def

text \<open>A successful \<open>fitpc2_init\<close> leaves both descriptors allocated.\<close>

lemma fitpc2_init_success_descriptors:
  assumes "fitpc2_init env s = (0, s')"
  shows "tz0 s' \<noteq> None \<and> tz1 s' \<noteq> None"
  using assms
  by (auto simp add: init_defs ENODEV_def ENOMEM_def EBUSY_def
      split: if_splits option.splits)

text \<open>After a successful \<open>fitpc2_init\<close> from the unloaded state, \<open>fitpc2_exit\<close> gives
  everything back.\<close>

lemma fitpc2_exit_releases:
  assumes "fitpc2_init env unloaded = (0, s')"
  shows "\<exists>s''. fitpc2_exit s' = Some s'' \<and> kallocs s'' = 0 \<and> pci_refs s'' = 0
           \<and> set (zones s'') = {}"
  using assms
  by (auto simp add: init_defs fitpc2_exit_def unloaded_def ENODEV_def ENOMEM_def EBUSY_def
      thermal_zone_device_unregister_def mutex_destroy_def kfree_def pci_dev_put_def
      split: if_splits option.splits)

text \<open>
  C7.  The claim asks that a failing \<open>fitpc2_init\<close> release what it had created.  The code
  returns at the failing step and releases nothing.  When the second \<open>kzalloc\<close> fails,
  \<open>fitpc2_init\<close> returns \<open>-ENOMEM\<close> with the first descriptor still allocated and the
  reference on the PCI device still held; when the second registration is refused, it
  returns \<open>-EBUSY\<close> with both descriptors allocated, the first zone still registered and the
  reference still held.
\<close>

theorem fitpc2_init_failure_keeps_resources:
  "fst (fitpc2_init alloc_fails unloaded) = - ENOMEM
   \<and> kallocs (snd (fitpc2_init alloc_fails unloaded)) = 1
   \<and> pci_refs (snd (fitpc2_init alloc_fails unloaded)) = 1
   \<and> fst (fitpc2_init register_fails unloaded) = - EBUSY
   \<and> kallocs (snd (fitpc2_init register_fails unloaded)) = 2
   \<and> zones (snd (fitpc2_init register_fails unloaded)) = [1]
   \<and> pci_refs (snd (fitpc2_init register_fails unloaded)) = 1"
  by (simp add: init_defs alloc_fails_def register_fails_def unloaded_def)

text \<open>
  The claim C8 as worded fails: when the platform matches and \<open>pci_get_device\<close> finds
  nothing, \<open>fitpc2_init\<close> returns 0, not \<open>-ENODEV\<close>, with two descriptors allocated and two
  zones registered.
\<close>

theorem fitpc2_init_no_device_counterexample:
  "pci_found no_device = None
   \<and> fst (fitpc2_init no_device unloaded) = 0
   \<and> fst (fitpc2_init no_device unloaded) \<noteq> - ENODEV
   \<and> kallocs (snd (fitpc2_init no_device unloaded)) = 2
   \<and> zones (snd (fitpc2_init no_device unloaded)) = [1, 2]"
  by (simp add: init_defs no_device_def unloaded_def ENODEV_def)

text \<open>
  C8 (as amended).  \<open>fitpc2_init\<close> reports \<open>-ENODEV\<close>, with nothing allocated or registered
  and the state untouched, when the platform identification finds no match.  When the
  platform matches and \<open>pci_get_device\<close> finds no device, \<open>fitpc2_init\<close> never reports
  \<open>-ENODEV\<close>: it leaves \<open>pdev\<close> \<open>NULL\<close> and goes on; if both allocations and both
  registrations succeed it returns 0 with two more descriptors allocated and both zones
  registered, and from then on every read returns \<open>-ENODEV\<close> without touching the bus.
\<close>

theorem fitpc2_init_no_device:
  "(dmi_matches env = 0 \<longrightarrow> fitpc2_init env s = (- ENODEV, s))
   \<and> (dmi_matches env \<noteq> 0 \<and> pci_found env = None \<longrightarrow>
        fst (fitpc2_init env s) \<noteq> - ENODEV \<and> pdev (snd (fitpc2_init env s)) = None \<and>
        pci_refs (snd (fitpc2_init env s)) = pci_refs s)
   \<and> (dmi_matches env \<noteq> 0 \<and> pci_found env = None \<and> kzalloc0_ok env \<and> kzalloc1_ok env \<and>
      register0 env = Some z0 \<and> register1 env = Some z1 \<longrightarrow>
        fst (fitpc2_init env s) = 0 \<and>
        kallocs (snd (fitpc2_init env s)) = kallocs s + 2 \<and>
        zones (snd (fitpc2_init env s)) = zones s @ [z0, z1] \<and>
        tz0 (snd (fitpc2_init env s)) = Some \<lparr>tz_id = 0, dev = Some z0\<rparr> \<and>
        tz1 (snd (fitpc2_init env s)) = Some \<lparr>tz_id = 0, dev = Some z1\<rparr> \<and>
        get_temp z (snd (fitpc2_init env s)) =
          (Returned (- ENODEV) None, snd (fitpc2_init env s)))"
proof -
  have a: "dmi_matches env = 0 \<longrightarrow> fitpc2_init env s = (- ENODEV, s)"
    by (simp add: fitpc2_init_def)
  have b: "dmi_matches env \<noteq> 0 \<and> pci_found env = None \<longrightarrow>
        fst (fitpc2_init env s) \<noteq> - ENODEV \<and> pdev (snd (fitpc2_init env s)) = None \<and>
        pci_refs (snd (fitpc2_init env s)) = pci_refs s"
    by (auto simp add: init_defs ENODEV_def ENOMEM_def EBUSY_def split: option.splits)
  have c: "fst (fitpc2_init env s) = 0 \<and>
        kallocs (snd (fitpc2_init env s)) = kallocs s + 2 \<and>
        zones (snd (fitpc2_init env s)) = zones s @ [z0, z1] \<and>
        tz0 (snd (fitpc2_init env s)) = Some \<lparr>tz_id = 0, dev = Some z0\<rparr> \<and>
        tz1 (snd (fitpc2_init env s)) = Some \<lparr>tz_id = 0, dev = Some z1\<rparr> \<and>
        get_temp z (snd (fitpc2_init env s)) =
          (Returned (- ENODEV) None, snd (fitpc2_init env s))"
    if "dmi_matches env \<noteq> 0" "pci_found env = None" "kzalloc0_ok env" "kzalloc1_ok env"
      "register0 env = Some z0" "register1 env = Some z1"
  proof -
    have "pdev (snd (fitpc2_init env s)) = None" using b that by blast
    then have "get_temp z (snd (fitpc2_init env s)) =
          (Returned (- ENODEV) None, snd (fitpc2_init env s))"
      by (rule get_temp_absent)
    moreover have "fst (fitpc2_init env s) = 0 \<and>
        kallocs (snd (fitpc2_init env s)) = kallocs s + 2 \<and>
        zones (snd (fitpc2_init env s)) = zones s @ [z0, z1] \<and>
        tz0 (snd (fitpc2_init env s)) = Some \<lparr>tz_id = 0, dev = Some z0\<rparr> \<and>
        tz1 (snd (fitpc2_init env s)) = Some \<lparr>tz_id = 0, dev = Some z1\<rparr>"
      using that by (simp add: init_defs)
    ultimately show ?thesis by simp
  qed
  from a b c show ?thesis by blast
qed

theorem fitpc2_init_no_device_witness:
  "dmi_matches no_dmi = 0
   \<and> fitpc2_init no_dmi unloaded = (- ENODEV, unloaded)
   \<and> dmi_matches no_device \<noteq> 0 \<and> pci_found no_device = None
   \<and> kzalloc0_ok no_device \<and> kzalloc1_ok no_device
   \<and> register0 no_device = Some 1 \<and> register1 no_device = Some 2
   \<and> fst (fitpc2_init no_device unloaded) = 0
   \<and> pdev (snd (fitpc2_init no_device unloaded)) = None
   \<and> kallocs (snd (fitpc2_init no_device unloaded)) = 2
   \<and> zones (snd (fitpc2_init no_device unloaded)) = [1, 2]
   \<and> get_temp (Some 1) (snd (fitpc2_init no_device unloaded)) =
        (Returned (- ENODEV) None, snd (fitpc2_init no_device unloaded))"
proof -
  have d: "dmi_matches no_dmi = 0" by (simp add: no_dmi_def)
  have n: "dmi_matches no_device \<noteq> 0" "pci_found no_device = None"
    "kzalloc0_ok no_device" "kzalloc1_ok no_device"
    "register0 no_device = Some 1" "register1 no_device = Some 2"
    by (simp_all add: no_device_def)
  have u: "kallocs unloaded = 0" "zones unloaded = []" by (simp_all add: unloaded_def)
  note a = fitpc2_init_no_device [of no_dmi unloaded 1 2 "Some 1"]
  note b = fitpc2_init_no_device [of no_device unloaded 1 2 "Some 1"]
  from a d have "fitpc2_init no_dmi unloaded = (- ENODEV, unloaded)" by blast
  moreover from b n have "pdev (snd (fitpc2_init no_device unloaded)) = None" by blast
  moreover from b n have "fst (fitpc2_init no_device unloaded) = 0 \<and>
        kallocs (snd (fitpc2_init no_device unloaded)) = kallocs unloaded + 2 \<and>
        zones (snd (fitpc2_init no_device unloaded)) = zones unloaded @ [1, 2] \<and>
        get_temp (Some 1) (snd (fitpc2_init no_device unloaded)) =
          (Returned (- ENODEV) None, snd (fitpc2_init no_device unloaded))"
    by blast
  ultimately show ?thesis using d n u by simp
qed

section \<open>Interleaved callers\<close>

text \<open>The statement list is the locked part of \<open>get_temp\<close>: run in order, it has the
  effect of the call on the shared state and reads the status word.\<close>

lemma small_pc: "k < 9 \<Longrightarrow> k = 0 \<or> k = 1 \<or> k = 2 \<or> k = 3 \<or> k = 4 \<or> k = 5 \<or> k = 6 \<or> k = 7 \<or> k = (8::nat)"
  by arith

lemma stmt_event:
  assumes "k < 9"
  shows "\<exists>e. buslog (snd ((get_temp_stmts d ! k) (r, s))) = buslog s @ [e] \<and> expected k e"
  using small_pc [OF assms]
  by (elim disjE)
     (simp_all add: get_temp_stmts_def expected_def read_transaction_def mutex_lock_def
        mutex_unlock_def msleep_def pci_write_config_dword_def pci_read_config_dword_def
        Let_def)

lemma stmts_run:
  "foldl (\<lambda>a f. f a) (r, s) (get_temp_stmts d) =
     (status_word d s, s\<lparr>buslog := buslog s @ read_transaction (status_word d s)\<rparr>)"
  by (simp add: get_temp_stmts_def read_transaction_def mutex_lock_def
        mutex_unlock_def msleep_def pci_write_config_dword_def pci_read_config_dword_def
        Let_def status_word_def)

lemma get_temp_runs_stmts:
  assumes "pdev s = Some d"
  shows "snd (get_temp z s) = snd (foldl (\<lambda>a f. f a) (r, s) (get_temp_stmts d))"
  unfolding stmts_run get_temp_present [OF assms]
  by (simp add: Let_def deliver_total split: option.splits)

lemma idle_inv: "mutex_inv (idle_system s rs)"
  by (auto simp add: mutex_inv_def idle_system_def seen_def outside_def)

lemma step_event:
  assumes "pcs y i < 9" and "pdev (shared y) = Some d"
    and "pcs y i = 0 \<longrightarrow> owner y = None"
  shows "\<exists>e s' r'. expected (pcs y i) e \<and>
           thread_step i y =
             y\<lparr>shared := s',
               owner := (if pcs y i = 0 then Some i else if pcs y i = 8 then None else owner y),
               pcs := (pcs y)(i := Suc (pcs y i)),
               regs := (regs y)(i := r'),
               trace := trace y @ [(i, e)]\<rparr>"
proof -
  obtain e where e: "buslog (snd ((get_temp_stmts d ! pcs y i) (regs y i, shared y))) =
      buslog (shared y) @ [e]" "expected (pcs y i) e"
    using stmt_event [OF assms(1)] by blast
  obtain r' s' where rs: "(get_temp_stmts d ! pcs y i) (regs y i, shared y) = (r', s')"
    by (cases "(get_temp_stmts d ! pcs y i) (regs y i, shared y)")
  from e(1) rs have "drop (length (buslog (shared y))) (buslog s') = [e]" by simp
  with assms rs have "thread_step i y =
             y\<lparr>shared := s',
               owner := (if pcs y i = 0 then Some i else if pcs y i = 8 then None else owner y),
               pcs := (pcs y)(i := Suc (pcs y i)),
               regs := (regs y)(i := r'),
               trace := trace y @ [(i, e)]\<rparr>"
    by (auto simp add: thread_step_def Let_def)
  with e(2) show ?thesis by blast
qed

lemma thread_step_inv:
  assumes "mutex_inv y"
  shows "mutex_inv (thread_step i y)"
proof -
  let ?k = "pcs y i"
  consider (ret) "9 \<le> ?k"
    | (nodev) "?k < 9" "pdev (shared y) = None"
    | (blocked) d where "?k = 0" "pdev (shared y) = Some d" "owner y \<noteq> None"
    | (lock) d where "?k = 0" "pdev (shared y) = Some d" "owner y = None"
    | (body) d where "1 \<le> ?k" "?k < 9" "pdev (shared y) = Some d"
    by (cases "pdev (shared y)") force+
  then show ?thesis
  proof cases
    case ret
    then have "thread_step i y = y\<lparr>pcs := (pcs y)(i := 0)\<rparr>"
      by (simp add: thread_step_def)
    with assms ret show ?thesis
      by (auto simp add: mutex_inv_def seen_def outside_def split: option.splits)
  next
    case nodev
    then have "thread_step i y = (if ?k = 0 then y\<lparr>pcs := (pcs y)(i := 9)\<rparr> else y)"
      by (simp add: thread_step_def)
    with assms nodev show ?thesis
      by (auto simp add: mutex_inv_def seen_def outside_def split: option.splits)
  next
    case blocked
    then have "thread_step i y = y" by (simp add: thread_step_def)
    with assms show ?thesis by simp
  next
    case lock
    with step_event [of y i d] obtain e s' r' where
      e: "expected 0 e" and
      st: "thread_step i y = y\<lparr>shared := s', owner := Some i, pcs := (pcs y)(i := Suc 0),
               regs := (regs y)(i := r'), trace := trace y @ [(i, e)]\<rparr>"
      by auto
    from assms lock have "foldl observe Idle (trace y) = Idle" "\<forall>j. outside y j"
      by (simp_all add: mutex_inv_def seen_def)
    with e show ?thesis unfolding st
      by (auto simp add: mutex_inv_def seen_def outside_def)
  next
    case body
    have own: "owner y = Some i"
    proof (cases "owner y")
      case None
      with assms have "outside y i" by (simp add: mutex_inv_def)
      with body show ?thesis by (simp add: outside_def)
    next
      case (Some j)
      show ?thesis
      proof (rule ccontr)
        assume "owner y \<noteq> Some i"
        with Some have "i \<noteq> j" by simp
        with assms Some have "outside y i" by (simp add: mutex_inv_def)
        with body show False by (simp add: outside_def)
      qed
    qed
    with assms have tr: "foldl observe Idle (trace y) = Busy i ?k"
      and others: "\<forall>j. j \<noteq> i \<longrightarrow> outside y j"
      by (simp_all add: mutex_inv_def seen_def)
    from body step_event [of y i d] obtain e s' r' where
      e: "expected ?k e" and
      st: "thread_step i y = y\<lparr>shared := s', owner := (if ?k = 8 then None else owner y),
               pcs := (pcs y)(i := Suc ?k),
               regs := (regs y)(i := r'), trace := trace y @ [(i, e)]\<rparr>"
      by auto
    show ?thesis
    proof (cases "?k = 8")
      case True
      with e tr others own show ?thesis unfolding st
        by (auto simp add: mutex_inv_def seen_def outside_def)
    next
      case False
      with e tr others own body show ?thesis unfolding st
        by (auto simp add: mutex_inv_def seen_def outside_def)
    qed
  qed
qed

lemma run_inv: "mutex_inv y \<Longrightarrow> mutex_inv (run sched y)"
  by (induction sched arbitrary: y) (simp_all add: thread_step_inv)

lemma inv_serialized: "mutex_inv y \<Longrightarrow> serialized (trace y)"
  by (simp add: mutex_inv_def serialized_def seen_def split: option.splits)

lemma serialized_rejects_overlap:
  "\<not> serialized [(0, MutexLock), (0, CfgWrite PCI_PORT5_MDR B0_INIT),
                  (1, CfgWrite PCI_PORT5_MDR B0_INIT)]"
  by (simp add: serialized_def expected_def read_transaction_def)

text \<open>
  C9.  Whatever the number of callers and however their steps are scheduled, starting from
  a system where no call is in progress, the bus trace is a sequence of whole transactions:
  each begins with its caller taking the mutex, continues with that caller's
  write, write, sleep, write, read, write, write in order, and ends with that caller
  releasing the mutex, and no event of another caller falls between them.
\<close>

theorem transactions_serialized:
  "serialized (trace (run sched (idle_system s rs)))"
  by (rule inv_serialized, rule run_inv, rule idle_inv)

theorem transactions_serialized_witness:
  "trace (run [0, 1, 0, 1, 0, 1, 0, 1, 0, 1, 0, 1, 0, 1, 0, 1, 0, 1, 1, 1, 1, 1, 1, 1, 1, 1]
       (idle_system board (\<lambda>i. 0))) =
     map (Pair 0) (read_transaction 0x00001E0A) @ map (Pair 1) (read_transaction 0x00001E0A)
   \<and> serialized
       (map (Pair 0) (read_transaction 0x00001E0A) @ map (Pair 1) (read_transaction 0x00001E0A))"
proof -
  have t: "trace (run [0, 1, 0, 1, 0, 1, 0, 1, 0, 1, 0, 1, 0, 1, 0, 1, 0, 1, 1, 1, 1, 1, 1, 1, 1, 1]
       (idle_system board (\<lambda>i. 0))) =
     map (Pair 0) (read_transaction 0x00001E0A) @ map (Pair 1) (read_transaction 0x00001E0A)"
    by (simp add: thread_step_def idle_system_def board_def get_temp_stmts_def
        read_transaction_def mutex_lock_def mutex_unlock_def msleep_def
        pci_write_config_dword_def pci_read_config_dword_def Let_def)
  show ?thesis
    using transactions_serialized
      [of "[0, 1, 0, 1, 0, 1, 0, 1, 0, 1, 0, 1, 0, 1, 0, 1, 0, 1, 1, 1, 1, 1, 1, 1, 1, 1]"
          board "\<lambda>i. 0"]
    unfolding t by simp
qed


end
